theory Spec2Isabelle
  imports Complex_Main "HOL-Library.Multiset"
begin

section \<open>Conventions\<close>

text \<open>
  The development embeds the affective-mapping core of the service
  (\<^verbatim>\<open>app/analysis.py\<close>, \<^verbatim>\<open>app/models.py\<close>, \<^verbatim>\<open>app/main.py\<close>).
  Python floats are idealised as \<^typ>\<open>real\<close>: rounding, infinities and NaN are not
  represented, so \<^verbatim>\<open>float(x)\<close> of a float is the identity. Labels are
  \<^typ>\<open>string\<close>; \<^verbatim>\<open>str.lower\<close> and \<^verbatim>\<open>str.strip\<close> are modelled on ASCII.
  A Python \<^verbatim>\<open>dict\<close> whose iteration order is observable is an association list in
  insertion order; one that is only looked up is a map. A name keeps the source's spelling
  without its leading underscore. An exception is the \<open>Inl\<close> of a sum, a missing value
  \<open>None\<close>.
\<close>

type_synonym vad = "real \<times> real \<times> real"
type_synonym pairs = "(string \<times> real) list"

definition lower_char :: "char \<Rightarrow> char" where
  "lower_char c =
     (case map_of (zip ''ABCDEFGHIJKLMNOPQRSTUVWXYZ'' ''abcdefghijklmnopqrstuvwxyz'') c of
        Some d \<Rightarrow> d
      | None \<Rightarrow> c)"

definition lower :: "string \<Rightarrow> string" where
  "lower s = map lower_char s"

section \<open>The VAD mapper (\<^verbatim>\<open>analysis.py\<close>, class \<^verbatim>\<open>VADMapper\<close>)\<close>

text \<open>
  The two tables of a constructed mapper. The field \<^verbatim>\<open>alias\<close> of the source is
  called \<open>aliases\<close> here, \<open>alias\<close> being a reserved word.
\<close>

record VADMapper =
  mapping :: "string \<rightharpoonup> vad"
  aliases :: "string \<rightharpoonup> string"

definition canonical :: "VADMapper \<Rightarrow> string \<Rightarrow> string" where
  "canonical m label =
     (let l = lower label in case aliases m l of Some c \<Rightarrow> c | None \<Rightarrow> l)"

definition map_label :: "VADMapper \<Rightarrow> string \<Rightarrow> vad" where
  "map_label m label =
     (let key = canonical m label
      in case mapping m key of Some e \<Rightarrow> e | None \<Rightarrow> (0.5, 0.5, 0.5))"

text \<open>The body of the \<^verbatim>\<open>for\<close> loop of \<^verbatim>\<open>map_distribution\<close>, on the four accumulators.\<close>

fun map_distribution_loop ::
  "VADMapper \<Rightarrow> pairs \<Rightarrow> real \<times> real \<times> real \<times> real \<Rightarrow> real \<times> real \<times> real \<times> real" where
  "map_distribution_loop m [] acc = acc"
| "map_distribution_loop m ((label, score) # rest) (v, a, d, tot) =
     (case map_label m label of
        (vv, aa, dd) \<Rightarrow>
          map_distribution_loop m rest
            (v + score * vv, a + score * aa, d + score * dd, tot + score))"

definition map_distribution :: "VADMapper \<Rightarrow> pairs \<Rightarrow> vad" where
  "map_distribution m distribution =
     (if distribution = [] then (0.5, 0.5, 0.5)
      else case map_distribution_loop m distribution (0, 0, 0, 0) of
        (v, a, d, tot) \<Rightarrow>
          if tot \<le> 0 then (0.5, 0.5, 0.5) else (v / tot, a / tot, d / tot))"

section \<open>Python built-ins used by the core\<close>

text \<open>ASCII white space, as \<^verbatim>\<open>str.strip\<close> and \<^verbatim>\<open>str.split\<close> see it.\<close>

definition is_space :: "char \<Rightarrow> bool" where
  "is_space c \<longleftrightarrow>
     c \<in> set [CHR '' '', CHR 0x09, CHR 0x0A, CHR 0x0B, CHR 0x0C, CHR 0x0D,
               CHR 0x1C, CHR 0x1D, CHR 0x1E, CHR 0x1F]"

definition strip :: "string \<Rightarrow> string" where
  "strip s = rev (dropWhile is_space (rev (dropWhile is_space s)))"



text \<open>\<^verbatim>\<open>int(x)\<close> on a float truncates towards zero.\<close>

definition trunc :: "real \<Rightarrow> int" where
  "trunc x = (if 0 \<le> x then \<lfloor>x\<rfloor> else \<lceil>x\<rceil>)"

text \<open>
  \<^verbatim>\<open>xs[:k]\<close>: a negative bound counts from the end.
\<close>

definition slice_to :: "'a list \<Rightarrow> int \<Rightarrow> 'a list" where
  "slice_to xs k = (if 0 \<le> k then take (nat k) xs else take (nat (int (length xs) + k)) xs)"

text \<open>
  \<^verbatim>\<open>sorted(xs, key=f, reverse=True)\<close> is stable: entries with equal keys keep their
  order. \<^const>\<open>sort_key\<close> is a stable insertion sort, here on the negated key.
\<close>

definition sort_desc :: "('a \<Rightarrow> real) \<Rightarrow> 'a list \<Rightarrow> 'a list" where
  "sort_desc f xs = sort_key (\<lambda>x. - f x) xs"

text \<open>\<^verbatim>\<open>max(xs, key=f)\<close> returns the first entry whose key is maximal.\<close>

fun max_from :: "('a \<Rightarrow> real) \<Rightarrow> 'a \<Rightarrow> 'a list \<Rightarrow> 'a" where
  "max_from f best [] = best"
| "max_from f best (x # xs) = max_from f (if f best < f x then x else best) xs"

definition py_max :: "('a \<Rightarrow> real) \<Rightarrow> 'a list \<Rightarrow> 'a option" where
  "py_max f xs = (case xs of [] \<Rightarrow> None | x # rest \<Rightarrow> Some (max_from f x rest))"

text \<open>A \<^verbatim>\<open>dict\<close> in insertion order: lookup with default, assignment, \<^verbatim>\<open>setdefault\<close>.\<close>

definition dict_get :: "('k \<times> 'v) list \<Rightarrow> 'k \<Rightarrow> 'v \<Rightarrow> 'v" where
  "dict_get d k dflt = (case map_of d k of Some v \<Rightarrow> v | None \<Rightarrow> dflt)"

fun dict_set :: "('k \<times> 'v) list \<Rightarrow> 'k \<Rightarrow> 'v \<Rightarrow> ('k \<times> 'v) list" where
  "dict_set [] k v = [(k, v)]"
| "dict_set ((k', v') # d) k v = (if k' = k then (k, v) # d else (k', v') # dict_set d k v)"



section \<open>Metrics (\<^verbatim>\<open>main.py\<close>)\<close>

record metrics =
  start_time :: real
  inference_latencies_ms :: "real list"
  inference_count :: nat
  error_count :: nat
  emotion_top1_scores :: "real list"
  emotion_top1_times :: "real list"

text \<open>The module-level initial value; \<open>t0\<close> is the clock at import.\<close>

definition initial_metrics :: "real \<Rightarrow> metrics" where
  "initial_metrics t0 =
     \<lparr>start_time = t0, inference_latencies_ms = [], inference_count = 0, error_count = 0,
      emotion_top1_scores = [], emotion_top1_times = []\<rparr>"

text \<open>
  \<^verbatim>\<open>del buf[: n]\<close> is \<^term>\<open>drop n buf\<close>; it runs when the buffer, after the append,
  is longer than 2000.
\<close>

definition record_latency_ms :: "metrics \<Rightarrow> real \<Rightarrow> metrics" where
  "record_latency_ms M ms =
     (let buf = inference_latencies_ms M @ [ms];
          buf = (if 2000 < length buf then drop (length buf - 1000) buf else buf)
      in M\<lparr>inference_count := inference_count M + 1, inference_latencies_ms := buf\<rparr>)"

text \<open>
  \<open>now\<close> is the reading of \<^verbatim>\<open>time.perf_counter()\<close>. The guard of the source reads the
  length of the score buffer only, and both deletions run under it.
\<close>

definition record_emotion_top1 :: "metrics \<Rightarrow> real \<Rightarrow> real \<Rightarrow> metrics" where
  "record_emotion_top1 M score now =
     (let scores1 = emotion_top1_scores M @ [score];
          times1 = emotion_top1_times M @ [now]
      in if 2000 < length scores1
         then M\<lparr>emotion_top1_scores := drop (length scores1 - 1000) scores1,
                emotion_top1_times := drop (length times1 - 1000) times1\<rparr>
         else M\<lparr>emotion_top1_scores := scores1, emotion_top1_times := times1\<rparr>)"

definition percentile :: "real list \<Rightarrow> real \<Rightarrow> real option" where
  "percentile values q =
     (if values = [] then None
      else let s = sort values;
               n = int (length s);
               idx = trunc (q * real_of_int (n - 1));
               idx = max 0 (min idx (n - 1))
           in Some (s ! nat idx))"

text \<open>
  One call of the \<^verbatim>\<open>/analyze\<close> handler, as far as the metrics go. The classifiers and
  the construction of the response are outside the core: a request carries the outcome of
  the \<^verbatim>\<open>try\<close> body up to the response (the canonical emotion pairs, or the exception
  raised), the elapsed milliseconds and the clock reading taken when recording.
\<close>

datatype error =
  HTTPException nat | FileNotFoundError | JSONDecodeError | AttributeError | TypeError
  | ValueError | RuntimeError

record request =
  req_text :: string
  outcome :: "error + pairs"
  dt_ms :: real
  clock :: real

definition analyze :: "metrics \<Rightarrow> request \<Rightarrow> metrics \<times> (error + pairs)" where
  "analyze M req =
     (if strip (req_text req) = [] then (M, Inl (HTTPException 400))
      else case outcome req of
        Inr canon_pairs \<Rightarrow>
          (let M1 = record_latency_ms M (dt_ms req);
               M2 = (case canon_pairs of
                       [] \<Rightarrow> M1
                     | p # _ \<Rightarrow> record_emotion_top1 M1 (snd p) (clock req))
           in (M2, Inr canon_pairs))
      | Inl e \<Rightarrow>
          (let M1 = record_latency_ms M (dt_ms req)
           in (M1\<lparr>error_count := error_count M1 + 1\<rparr>, Inl (HTTPException 500))))"

text \<open>A sequence of requests, handled one after the other.\<close>

fun serve :: "metrics \<Rightarrow> request list \<Rightarrow> metrics" where
  "serve M [] = M"
| "serve M (r # rs) = serve (fst (analyze M r)) rs"

text \<open>A sequence of record operations on the buffers.\<close>

datatype record_op = Latency real | Top1 real real

fun apply_record :: "metrics \<Rightarrow> record_op \<Rightarrow> metrics" where
  "apply_record M (Latency ms) = record_latency_ms M ms"
| "apply_record M (Top1 score now) = record_emotion_top1 M score now"

fun run_records :: "metrics \<Rightarrow> record_op list \<Rightarrow> metrics" where
  "run_records M [] = M"
| "run_records M (op # ops) = run_records (apply_record M op) ops"

section \<open>Classifier output shaping (\<^verbatim>\<open>models.py\<close>)\<close>

text \<open>
  An item of the classifier's output is a dictionary; its \<^verbatim>\<open>label\<close> and \<^verbatim>\<open>score\<close>
  entries may be missing (\<open>None\<close>), and \<^verbatim>\<open>_normalize_scores\<close> supplies the defaults. The
  unwrapping of a nested list is done by the caller of the model.
\<close>

type_synonym item = "string option \<times> real option"

text \<open>The first loop of \<^verbatim>\<open>_normalize_scores\<close>: the list of (label, score) pairs.\<close>

definition item_pairs :: "item list \<Rightarrow> pairs" where
  "item_pairs items =
     map (\<lambda>(l, s). (strip (case l of Some x \<Rightarrow> x | None \<Rightarrow> []),
                    (case s of Some x \<Rightarrow> x | None \<Rightarrow> 0))) items"

definition normalize_scores :: "item list \<Rightarrow> bool \<Rightarrow> pairs" where
  "normalize_scores items normalize_flag =
     (let pairs = item_pairs items
      in if normalize_flag
         then let tot = sum_list (map (\<lambda>(_, s). max 0 s) pairs)
              in if 0 < tot then map (\<lambda>(l, s). (l, max 0 s / tot)) pairs else pairs
         else pairs)"

subsection \<open>Sentiment\<close>


record sentiment =
  label :: string
  scores :: "(string \<times> real) list"
  raw_model :: string












subsection \<open>Emotions\<close>

text \<open>
  \<^verbatim>\<open>analyze_emotions\<close> from the classifier's output on. \<open>multi\<close>, \<open>thr\<close> and \<open>topk\<close>
  are the configured multi-label flag, threshold and cap; a cap of \<open>None\<close> or \<open>0\<close> is
  falsy and switches truncation off.
\<close>

definition truncate_topk :: "int option \<Rightarrow> 'a list \<Rightarrow> 'a list" where
  "truncate_topk topk xs =
     (case topk of
        None \<Rightarrow> xs
      | Some k \<Rightarrow> if k \<noteq> 0 \<and> k < int (length xs) then slice_to xs k else xs)"

definition analyze_emotions :: "bool \<Rightarrow> real \<Rightarrow> int option \<Rightarrow> item list \<Rightarrow> pairs" where
  "analyze_emotions multi thr topk raw =
     (let pairs = normalize_scores raw (\<not> multi)
      in if multi
         then let selected = filter (\<lambda>(l, s). thr \<le> s) pairs;
                  selected = sort_desc snd selected;
                  selected = truncate_topk topk selected
              in (case (selected, py_max snd pairs) of
                    ([], Some best) \<Rightarrow> [best]
                  | _ \<Rightarrow> selected)
         else truncate_topk topk (sort_desc snd pairs))"

section \<open>Configuration files and module state (\<^verbatim>\<open>analysis.py\<close>)\<close>

text \<open>
  A parsed JSON document. An object lists its members as the dictionary that
  \<^verbatim>\<open>json.loads\<close> builds holds them, in insertion order.
\<close>

datatype json =
  JNull | JBool bool | JNum real | JStr string | JList "json list" | JObj "(string \<times> json) list"

text \<open>A file that exists either parses, or reading and parsing it raises.\<close>

datatype file_content = Malformed | Parsed json

text \<open>
  What the functions read from outside: the project root, the file system, and the two
  configuration getters of \<^verbatim>\<open>app/config.py\<close> (the path found for the negative-label
  file of a model directory, and the valence threshold). \<open>float_of_str\<close> and \<open>repr\<close>
  stand for Python's \<^verbatim>\<open>float\<close> on a string and \<^verbatim>\<open>str\<close> on a value that is no string.
\<close>

record env =
  PROJECT_ROOT :: string
  fs :: "string \<Rightarrow> file_content option"
  get_negative_config_paths :: "string \<Rightarrow> string option"
  get_negative_valence_threshold :: real
  float_of_str :: "string \<Rightarrow> real option"
  repr :: "json \<Rightarrow> string"

definition py_str :: "env \<Rightarrow> json \<Rightarrow> string" where
  "py_str E x = (case x of JStr s \<Rightarrow> s | _ \<Rightarrow> repr E x)"

fun truthy :: "json \<Rightarrow> bool" where
  "truthy JNull \<longleftrightarrow> False"
| "truthy (JBool b) \<longleftrightarrow> b"
| "truthy (JNum r) \<longleftrightarrow> r \<noteq> 0"
| "truthy (JStr s) \<longleftrightarrow> s \<noteq> []"
| "truthy (JList xs) \<longleftrightarrow> xs \<noteq> []"
| "truthy (JObj kvs) \<longleftrightarrow> kvs \<noteq> []"

definition py_float :: "env \<Rightarrow> json \<Rightarrow> error + real" where
  "py_float E x =
     (case x of
        JNum r \<Rightarrow> Inr r
      | JBool b \<Rightarrow> Inr (if b then 1 else 0)
      | JStr s \<Rightarrow> (case float_of_str E s of Some r \<Rightarrow> Inr r | None \<Rightarrow> Inl ValueError)
      | _ \<Rightarrow> Inl TypeError)"

definition float3 :: "env \<Rightarrow> json \<Rightarrow> json \<Rightarrow> json \<Rightarrow> error + vad" where
  "float3 E x y z =
     (case py_float E x of
        Inl e \<Rightarrow> Inl e
      | Inr v \<Rightarrow>
          (case py_float E y of
             Inl e \<Rightarrow> Inl e
           | Inr a \<Rightarrow> (case py_float E z of Inl e \<Rightarrow> Inl e | Inr d \<Rightarrow> Inr (v, a, d))))"

text \<open>The loop of \<^verbatim>\<open>_load_mapping_from_json\<close>: an entry of neither shape is skipped.\<close>

fun load_entries ::
  "env \<Rightarrow> (string \<times> json) list \<Rightarrow> (string \<times> vad) list \<Rightarrow> error + (string \<times> vad) list" where
  "load_entries E [] acc = Inr acc"
| "load_entries E ((k, v) # rest) acc =
     (case v of
        JObj members \<Rightarrow>
          (case float3 E (dict_get members ''valence'' (JNum 0.5))
                         (dict_get members ''arousal'' (JNum 0.5))
                         (dict_get members ''dominance'' (JNum 0.5)) of
             Inl e \<Rightarrow> Inl e
           | Inr t \<Rightarrow> load_entries E rest (dict_set acc k t))
      | JList [x, y, z] \<Rightarrow>
          (case float3 E x y z of
             Inl e \<Rightarrow> Inl e
           | Inr t \<Rightarrow> load_entries E rest (dict_set acc k t))
      | _ \<Rightarrow> load_entries E rest acc)"

definition load_mapping_from_json :: "env \<Rightarrow> string \<Rightarrow> error + (string \<times> vad) list" where
  "load_mapping_from_json E p =
     (case fs E p of
        None \<Rightarrow> Inl FileNotFoundError
      | Some Malformed \<Rightarrow> Inl JSONDecodeError
      | Some (Parsed (JObj kvs)) \<Rightarrow> load_entries E kvs []
      | Some (Parsed _) \<Rightarrow> Inl AttributeError)"

text \<open>
  The constructor of \<^verbatim>\<open>VADMapper\<close>: both comprehensions lower-case the keys, a later
  entry overwriting an earlier one with the same lower-cased key.
\<close>

definition VADMapper_init :: "(string \<times> vad) list \<Rightarrow> (string \<times> string) list option \<Rightarrow> VADMapper" where
  "VADMapper_init items alias =
     \<lparr>mapping = fold (\<lambda>(k, v) m. m(lower k \<mapsto> v)) items Map.empty,
      aliases = fold (\<lambda>(k, v) m. m(lower k \<mapsto> lower v))
                  (case alias of Some a \<Rightarrow> a | None \<Rightarrow> []) Map.empty\<rparr>"

text \<open>
  The module's globals: the mapper, the negative-label set, and the four entries of
  \<^verbatim>\<open>_vad_status\<close> that \<^verbatim>\<open>init_negative_labels\<close> writes.
\<close>

record state =
  vad_mapper :: "VADMapper option"
  negative_labels :: "string set option"
  negative_path :: "string option"
  negative_labels_count :: nat
  negative_labels_source :: "string option"
  negative_threshold :: "real option"

definition initial_state :: state where
  "initial_state =
     \<lparr>vad_mapper = None, negative_labels = None, negative_path = None,
      negative_labels_count = 0, negative_labels_source = None, negative_threshold = None\<rparr>"

definition default_path :: "env \<Rightarrow> string" where
  "default_path E = PROJECT_ROOT E @ ''/app/vad_maps/default.json''"

definition ensure_default_mapper :: "env \<Rightarrow> state \<Rightarrow> error + state" where
  "ensure_default_mapper E st =
     (if vad_mapper st \<noteq> None then Inr st
      else if fs E (default_path E) \<noteq> None
      then (case load_mapping_from_json E (default_path E) of
              Inl e \<Rightarrow> Inl e
            | Inr m \<Rightarrow> Inr (st\<lparr>vad_mapper := Some (VADMapper_init m None)\<rparr>))
      else Inr (st\<lparr>vad_mapper :=
                    Some (VADMapper_init [(''neutral'', (0.5, 0.3, 0.5))] None)\<rparr>))"

text \<open>
  \<^verbatim>\<open>_load_negative_from_file\<close>: \<open>None\<close> when reading or parsing raises. A document that
  is neither a list nor an object leaves the set empty.
\<close>

definition document_labels :: "env \<Rightarrow> json \<Rightarrow> string set" where
  "document_labels E data =
     (case data of
        JList xs \<Rightarrow> (\<lambda>x. lower (py_str E x)) ` set xs
      | JObj kvs \<Rightarrow>
          (case map_of kvs ''labels'' of
             Some (JList xs) \<Rightarrow> (\<lambda>x. lower (py_str E x)) ` set xs
           | _ \<Rightarrow> (\<lambda>(k, v). lower k) ` set (filter (\<lambda>(k, v). truthy v) kvs))
      | _ \<Rightarrow> {})"

definition load_negative_from_file :: "env \<Rightarrow> string \<Rightarrow> string set option" where
  "load_negative_from_file E p =
     (case fs E p of
        None \<Rightarrow> None
      | Some Malformed \<Rightarrow> None
      | Some (Parsed data) \<Rightarrow> Some (document_labels E data))"

text \<open>
  \<^verbatim>\<open>init_negative_labels\<close>. The candidates are the given labels when the list is
  given and not empty, else the keys of the mapper's table. Without a mapper (which
  \<^verbatim>\<open>_ensure_default_mapper\<close> excludes) the keys are none and a given label raises.
\<close>

definition derive_negative :: "VADMapper \<Rightarrow> real \<Rightarrow> string set \<Rightarrow> string set" where
  "derive_negative m threshold candidates =
     canonical m ` {lbl \<in> candidates. fst (map_label m lbl) < threshold}"

definition init_negative_labels :: "env \<Rightarrow> state \<Rightarrow> string \<Rightarrow> string list option \<Rightarrow> error + state" where
  "init_negative_labels E st emotion_model_dir emotion_labels =
     (let neg_path = get_negative_config_paths E emotion_model_dir;
          loaded = (case neg_path of
                      None \<Rightarrow> None
                    | Some p \<Rightarrow> if fs E p \<noteq> None then load_negative_from_file E p else None)
      in case loaded of
           Some labels \<Rightarrow>
             Inr (st\<lparr>negative_labels := Some labels, negative_path := neg_path,
                     negative_labels_count := card labels,
                     negative_labels_source := Some ''file''\<rparr>)
         | None \<Rightarrow>
             (case (if vad_mapper st = None then ensure_default_mapper E st else Inr st) of
                Inl e \<Rightarrow> Inl e
              | Inr st1 \<Rightarrow>
                  (let threshold = get_negative_valence_threshold E;
                       given = (case emotion_labels of Some ls \<Rightarrow> ls | None \<Rightarrow> [])
                   in case vad_mapper st1 of
                        None \<Rightarrow>
                          if given \<noteq> [] then Inl AttributeError
                          else Inr (st1\<lparr>negative_labels := Some {}, negative_path := None,
                                        negative_labels_count := 0,
                                        negative_labels_source := Some ''derived'',
                                        negative_threshold := Some threshold\<rparr>)
                      | Some m \<Rightarrow>
                          (let candidates = (if given \<noteq> [] then set given else dom (mapping m));
                               derived = derive_negative m threshold candidates
                           in Inr (st1\<lparr>negative_labels := Some derived, negative_path := None,
                                         negative_labels_count := card derived,
                                         negative_labels_source := Some ''derived'',
                                         negative_threshold := Some threshold\<rparr>)))))"

definition normalize_distribution :: "pairs \<Rightarrow> pairs" where
  "normalize_distribution pairs =
     (let tot = sum_list (map (\<lambda>(_, s). max 0 s) pairs)
      in if tot \<le> 0
         then let n = (if pairs \<noteq> [] then length pairs else 1)
              in map (\<lambda>(lbl, _). (lbl, 1 / real n)) pairs
         else map (\<lambda>(lbl, s). (lbl, max 0 s / tot)) pairs)"

text \<open>The canonical form \<^verbatim>\<open>derive_stress\<close> and \<^verbatim>\<open>canonicalize_distribution\<close> use.\<close>

definition canon_of :: "state \<Rightarrow> string \<Rightarrow> string" where
  "canon_of st lab = (case vad_mapper st of Some m \<Rightarrow> canonical m lab | None \<Rightarrow> lower lab)"

fun neg_sum_loop :: "state \<Rightarrow> pairs \<Rightarrow> real \<Rightarrow> real" where
  "neg_sum_loop st [] neg_sum = neg_sum"
| "neg_sum_loop st ((lab, score) # rest) neg_sum =
     (let canon = canon_of st lab
      in if (case negative_labels st of
               None \<Rightarrow> False
             | Some N \<Rightarrow> N \<noteq> {} \<and> canon \<in> N)
         then neg_sum_loop st rest (neg_sum + score)
         else neg_sum_loop st rest neg_sum)"

definition stress_level :: "real \<Rightarrow> string" where
  "stress_level stress =
     (if stress < 0.33 then ''low'' else if stress < 0.66 then ''medium'' else ''high'')"

definition derive_stress ::
  "env \<Rightarrow> state \<Rightarrow> real \<Rightarrow> real \<Rightarrow> pairs \<Rightarrow> error + state \<times> real \<times> string" where
  "derive_stress E st valence arousal distribution =
     (case (if negative_labels st = None
            then init_negative_labels E st (PROJECT_ROOT E @ ''/models/emotion'') None
            else Inr st) of
        Inl e \<Rightarrow> Inl e
      | Inr st1 \<Rightarrow>
          (let neg_sum = neg_sum_loop st1 distribution 0;
               stress = 0.6 * (1 - valence) + 0.4 * arousal + 0.15 * neg_sum;
               stress = max 0 (min 1 stress)
           in Inr (st1, stress, stress_level stress)))"

fun canonicalize_loop :: "state \<Rightarrow> pairs \<Rightarrow> pairs \<Rightarrow> pairs" where
  "canonicalize_loop st [] res = res"
| "canonicalize_loop st ((lbl, score) # rest) res =
     canonicalize_loop st rest (res @ [(canon_of st lbl, score)])"

definition canonicalize_distribution :: "env \<Rightarrow> state \<Rightarrow> pairs \<Rightarrow> error + state \<times> pairs" where
  "canonicalize_distribution E st distribution =
     (case (if vad_mapper st = None then ensure_default_mapper E st else Inr st) of
        Inl e \<Rightarrow> Inl e
      | Inr st1 \<Rightarrow> Inr (st1, canonicalize_loop st1 distribution []))"

section \<open>Notions used in the statements\<close>

text \<open>The invariant of the buffers under the two record operations.\<close>

definition capped :: "metrics \<Rightarrow> bool" where
  "capped M \<longleftrightarrow>
     length (inference_latencies_ms M) \<le> 2000 \<and> length (emotion_top1_scores M) \<le> 2000
     \<and> length (emotion_top1_times M) = length (emotion_top1_scores M)"

text \<open>
  Concrete surroundings for the examples: an environment with no file at all and a
  threshold of 0.4, and a mapper with two entries and one alias.
\<close>

definition bare_env :: env where
  "bare_env =
     \<lparr>PROJECT_ROOT = ''/srv'', fs = (\<lambda>p. None), get_negative_config_paths = (\<lambda>d. None),
      get_negative_valence_threshold = 0.4, float_of_str = (\<lambda>s. None),
      repr = (\<lambda>j. ''?'')\<rparr>"

definition small_mapper :: VADMapper where
  "small_mapper =
     \<lparr>mapping = [''joy'' \<mapsto> (0.9, 0.6, 0.7), ''sadness'' \<mapsto> (0.1, 0.4, 0.3)],
      aliases = [''sad'' \<mapsto> ''sadness'']\<rparr>"

text \<open>
  The negative mass of a distribution as the specification words it: the sum of the scores
  of the entries whose canonical label is in the negative-label set. And the stress score
  as a function of valence, arousal and that mass.
\<close>

definition neg_mass :: "state \<Rightarrow> pairs \<Rightarrow> real" where
  "neg_mass st D =
     sum_list (map snd (filter (\<lambda>(l, s). case negative_labels st of
                                           Some N \<Rightarrow> canon_of st l \<in> N
                                         | None \<Rightarrow> False) D))"

definition stress_score :: "real \<Rightarrow> real \<Rightarrow> real \<Rightarrow> real" where
  "stress_score V A mass = max 0 (min 1 (0.6 * (1 - V) + 0.4 * A + 0.15 * mass))"

text \<open>
  The three document shapes the specification lists for the negative-label file: a list,
  an object with a \<open>labels\<close> list, or an object read through its truthy keys; that is, a
  list or an object.
\<close>

fun accepted_shape :: "json \<Rightarrow> bool" where
  "accepted_shape (JList xs) \<longleftrightarrow> True"
| "accepted_shape (JObj kvs) \<longleftrightarrow> True"
| "accepted_shape _ \<longleftrightarrow> False"

text \<open>No usable file: no path configured, no file at the path, or a file that does not parse.\<close>

definition no_negative_file :: "env \<Rightarrow> string \<Rightarrow> bool" where
  "no_negative_file E d \<longleftrightarrow>
     (case get_negative_config_paths E d of
        None \<Rightarrow> True
      | Some path \<Rightarrow> fs E path = None \<or> fs E path = Some Malformed)"

text \<open>The bare environment with a negative-label file holding the given document.\<close>

definition file_env :: "json \<Rightarrow> env" where
  "file_env doc =
     bare_env\<lparr>get_negative_config_paths := (\<lambda>d. Some ''/srv/negative_emotions.json''),
              fs := (\<lambda>p. if p = ''/srv/negative_emotions.json'' then Some (Parsed doc)
                         else None)\<rparr>"





section \<open>Properties of the VAD mapper\<close>

lemma map_distribution_loop_sums:
  "map_distribution_loop m D (v, a, d, t) =
     (v + sum_list (map (\<lambda>(l, s). s * fst (map_label m l)) D),
      a + sum_list (map (\<lambda>(l, s). s * fst (snd (map_label m l))) D),
      d + sum_list (map (\<lambda>(l, s). s * snd (snd (map_label m l))) D),
      t + sum_list (map snd D))"
proof (induction D arbitrary: v a d t)
  case Nil
  show ?case by simp
next
  case (Cons p D)
  obtain l s where p: "p = (l, s)" by (cases p)
  obtain vv aa dd where e: "map_label m l = (vv, aa, dd)" by (cases "map_label m l")
  show ?case
    by (simp add: p e Cons.IH add.assoc)
qed

text \<open>
  C1. \<^verbatim>\<open>map_distribution\<close> returns the neutral vector \<open>(0.5, 0.5, 0.5)\<close> when the
  distribution is empty or its scores sum to at most 0; otherwise each axis is the sum of
  score times the label's VAD component, divided by the sum of the scores. The VAD of a
  label is the table entry of its canonical form, and \<open>(0.5, 0.5, 0.5)\<close> when the table
  has none.
\<close>

theorem map_distribution_weighted_average:
  "map_distribution m D =
     (if D = [] \<or> sum_list (map snd D) \<le> 0 then (0.5, 0.5, 0.5)
      else (sum_list (map (\<lambda>(l, s). s * fst (map_label m l)) D) / sum_list (map snd D),
            sum_list (map (\<lambda>(l, s). s * fst (snd (map_label m l))) D) / sum_list (map snd D),
            sum_list (map (\<lambda>(l, s). s * snd (snd (map_label m l))) D) / sum_list (map snd D)))
   \<and> (\<forall>l. map_label m l =
          (if canonical m l \<in> dom (mapping m) then the (mapping m (canonical m l))
           else (0.5, 0.5, 0.5)))"
proof
  show "map_distribution m D =
     (if D = [] \<or> sum_list (map snd D) \<le> 0 then (0.5, 0.5, 0.5)
      else (sum_list (map (\<lambda>(l, s). s * fst (map_label m l)) D) / sum_list (map snd D),
            sum_list (map (\<lambda>(l, s). s * fst (snd (map_label m l))) D) / sum_list (map snd D),
            sum_list (map (\<lambda>(l, s). s * snd (snd (map_label m l))) D) / sum_list (map snd D)))"
    by (simp add: map_distribution_def map_distribution_loop_sums)
  show "\<forall>l. map_label m l =
          (if canonical m l \<in> dom (mapping m) then the (mapping m (canonical m l))
           else (0.5, 0.5, 0.5))"
    by (auto simp: map_label_def Let_def split: option.splits)
qed

text \<open>
  The example of the specification: joy at 0.7 and sadness at 0.3, with
  joy \<open>\<mapsto> (0.9, 0.6, 0.7)\<close> and sadness \<open>\<mapsto> (0.1, 0.4, 0.3)\<close>, give \<open>(0.66, 0.54, 0.58)\<close>.
\<close>

theorem map_distribution_weighted_average_witness:
  "map_distribution
     \<lparr>mapping = [''joy'' \<mapsto> (0.9, 0.6, 0.7), ''sadness'' \<mapsto> (0.1, 0.4, 0.3)],
      aliases = Map.empty\<rparr>
     [(''Joy'', 0.7), (''sadness'', 0.3)] = (0.66, 0.54, 0.58)"
  using map_distribution_weighted_average
    [of "\<lparr>mapping = [''joy'' \<mapsto> (0.9, 0.6, 0.7), ''sadness'' \<mapsto> (0.1, 0.4, 0.3)],
          aliases = Map.empty\<rparr>"
        "[(''Joy'', 0.7), (''sadness'', 0.3)]"]
  by (simp add: map_label_def canonical_def lower_def lower_char_def)
section \<open>Properties of the metrics buffers\<close>

lemma percentile_clamped:
  assumes "values \<noteq> []"
  shows "percentile values q =
     Some (sort values !
       nat (max 0 (min \<lfloor>q * (real (length values) - 1)\<rfloor> (int (length values) - 1))))"
proof -
  let ?n = "int (length values)"
  define x where "x = q * real_of_int (?n - 1)"
  have "max 0 (min (trunc x) (?n - 1)) = max 0 (min \<lfloor>x\<rfloor> (?n - 1))"
  proof (cases "0 \<le> x")
    case True
    then show ?thesis by (simp add: trunc_def)
  next
    case False
    then have c: "\<lceil>x\<rceil> \<le> 0" and f: "\<lfloor>x\<rfloor> \<le> 0"
      by (simp_all add: ceiling_le_iff floor_le_iff)
    have a: "max 0 (min \<lceil>x\<rceil> (?n - 1)) = 0"
      using c by (intro max_absorb1 min.coboundedI1)
    have b: "max 0 (min \<lfloor>x\<rfloor> (?n - 1)) = 0"
      using f by (intro max_absorb1 min.coboundedI1)
    show ?thesis using False by (simp only: trunc_def a b if_False)
  qed
  then show ?thesis using assms by (simp add: percentile_def Let_def x_def)
qed

lemma percentile_index_in_range:
  assumes "values \<noteq> []" "0 \<le> q" "q \<le> 1"
  shows "0 \<le> \<lfloor>q * (real (length values) - 1)\<rfloor>
     \<and> \<lfloor>q * (real (length values) - 1)\<rfloor> \<le> int (length values) - 1"
proof -
  have n: "0 \<le> real (length values) - 1" using assms by (cases "values") auto
  have "q * (real (length values) - 1) \<le> 1 * (real (length values) - 1)"
    using assms n by (intro mult_right_mono) auto
  then have "\<lfloor>q * (real (length values) - 1)\<rfloor> \<le> \<lfloor>real (length values) - 1\<rfloor>"
    by (intro floor_mono) simp
  moreover have "\<lfloor>real (length values) - 1\<rfloor> = int (length values) - 1" by linarith
  moreover have "0 \<le> q * (real (length values) - 1)" using assms n by simp
  ultimately show ?thesis by simp
qed

text \<open>
  C7. For a non-empty list and \<open>q\<close> in \<open>[0, 1]\<close>, \<^verbatim>\<open>_percentile\<close> returns the element of
  the ascending-sorted list at index \<open>\<lfloor>q \<times> (n - 1)\<rfloor>\<close>, which lies in \<open>[0, n - 1]\<close>; for any
  \<open>q\<close> the index is that floor clamped to \<open>[0, n - 1]\<close>; the empty list gives \<open>None\<close>;
  and \<open>percentile [10, 20, 30, 40, 50] 0.5 = 30\<close>.
\<close>

theorem percentile_nearest_rank:
  "percentile [] q = None
   \<and> (values \<noteq> [] \<longrightarrow> 0 \<le> q \<longrightarrow> q \<le> 1 \<longrightarrow>
        percentile values q = Some (sort values ! nat \<lfloor>q * (real (length values) - 1)\<rfloor>)
        \<and> nat \<lfloor>q * (real (length values) - 1)\<rfloor> < length values)
   \<and> (values \<noteq> [] \<longrightarrow>
        percentile values q =
          Some (sort values !
            nat (max 0 (min \<lfloor>q * (real (length values) - 1)\<rfloor> (int (length values) - 1)))))
   \<and> percentile [10, 20, 30, 40, 50] 0.5 = Some 30"
proof (intro conjI impI)
  show "percentile [] q = None" by (simp add: percentile_def)
next
  assume a: "values \<noteq> []" "0 \<le> q" "q \<le> 1"
  from percentile_index_in_range[OF a]
  have r: "max 0 (min \<lfloor>q * (real (length values) - 1)\<rfloor> (int (length values) - 1))
             = \<lfloor>q * (real (length values) - 1)\<rfloor>"
    by simp
  show "percentile values q = Some (sort values ! nat \<lfloor>q * (real (length values) - 1)\<rfloor>)"
    using percentile_clamped[OF a(1), of q] by (simp only: r)
  show "nat \<lfloor>q * (real (length values) - 1)\<rfloor> < length values"
    using percentile_index_in_range[OF a] a(1) by linarith
next
  assume "values \<noteq> []"
  then show "percentile values q =
          Some (sort values !
            nat (max 0 (min \<lfloor>q * (real (length values) - 1)\<rfloor> (int (length values) - 1))))"
    by (rule percentile_clamped)
next
  show "percentile [10, 20, 30, 40, 50] 0.5 = Some 30"
    by (simp add: percentile_def trunc_def Let_def)
qed

theorem percentile_nearest_rank_witness:
  "percentile [3, 1, 2] 0.95 = Some 2 \<and> percentile [3, 1, 2] 7 = Some 3
   \<and> percentile [] 0.95 = None"
  using percentile_nearest_rank [of "0.95" "[3, 1, 2]"] percentile_nearest_rank [of 7 "[3, 1, 2]"]
  by simp

lemma record_latency_ms_overflow:
  assumes "length (inference_latencies_ms M) = 2000"
  shows "inference_latencies_ms (record_latency_ms M ms) =
           drop 1001 (inference_latencies_ms M) @ [ms]"
  using assms by (simp add: record_latency_ms_def Let_def)

lemma record_latency_ms_below:
  assumes "length (inference_latencies_ms M) < 2000"
  shows "inference_latencies_ms (record_latency_ms M ms) = inference_latencies_ms M @ [ms]"
  using assms by (simp add: record_latency_ms_def Let_def)

lemma record_emotion_top1_overflow:
  assumes "length (emotion_top1_scores M) = 2000" "length (emotion_top1_times M) = 2000"
  shows "emotion_top1_scores (record_emotion_top1 M s t) = drop 1001 (emotion_top1_scores M) @ [s]"
    and "emotion_top1_times (record_emotion_top1 M s t) = drop 1001 (emotion_top1_times M) @ [t]"
  using assms by (simp_all add: record_emotion_top1_def Let_def)

lemma record_emotion_top1_below:
  assumes "length (emotion_top1_scores M) < 2000"
  shows "emotion_top1_scores (record_emotion_top1 M s t) = emotion_top1_scores M @ [s]"
    and "emotion_top1_times (record_emotion_top1 M s t) = emotion_top1_times M @ [t]"
  using assms by (simp_all add: record_emotion_top1_def Let_def)

lemma capped_initial: "capped (initial_metrics t0)"
  by (simp add: capped_def initial_metrics_def)

lemma capped_record_latency_ms: "capped M \<Longrightarrow> capped (record_latency_ms M ms)"
  by (auto simp: capped_def record_latency_ms_def Let_def)

lemma capped_record_emotion_top1: "capped M \<Longrightarrow> capped (record_emotion_top1 M s t)"
  by (auto simp: capped_def record_emotion_top1_def Let_def)

lemma capped_apply_record: "capped M \<Longrightarrow> capped (apply_record M op)"
  by (cases op) (simp_all add: capped_record_latency_ms capped_record_emotion_top1)

lemma capped_run_records: "capped M \<Longrightarrow> capped (run_records M ops)"
  by (induction ops arbitrary: M) (simp_all add: capped_apply_record)

lemma run_records_append: "run_records M (xs @ ys) = run_records (run_records M xs) ys"
  by (induction xs arbitrary: M) simp_all

lemma fill_latencies:
  "n \<le> 2000 \<Longrightarrow>
     inference_latencies_ms
       (run_records (initial_metrics t0) (map (\<lambda>i. Latency (real i)) [0..<n])) =
     map real [0..<n]"
proof (induction n)
  case 0
  show ?case by (simp add: initial_metrics_def)
next
  case (Suc n)
  then have ih: "inference_latencies_ms
       (run_records (initial_metrics t0) (map (\<lambda>i. Latency (real i)) [0..<n])) =
     map real [0..<n]"
    by simp
  have "length (inference_latencies_ms
       (run_records (initial_metrics t0) (map (\<lambda>i. Latency (real i)) [0..<n]))) < 2000"
    using Suc.prems by (simp add: ih)
  then show ?case
    by (simp add: run_records_append record_latency_ms_below ih)
qed

text \<open>
  C5, as the code has it. After any sequence of record operations from the initial state no
  buffer holds more than 2000 entries. A record call on a full buffer (2000 entries) leaves
  exactly 1000 entries: the 999 newest of the old ones followed by the entry just
  appended; the oldest 1001 are dropped. Below the cap a record call only appends. Scores
  and timestamps are cut at the same place.
\<close>

theorem buffers_capped_and_compacted:
  "length (inference_latencies_ms (run_records (initial_metrics t0) ops)) \<le> 2000
   \<and> length (emotion_top1_scores (run_records (initial_metrics t0) ops)) \<le> 2000
   \<and> length (emotion_top1_times (run_records (initial_metrics t0) ops)) \<le> 2000
   \<and> (length (inference_latencies_ms M) = 2000 \<longrightarrow>
        inference_latencies_ms (record_latency_ms M ms) =
          drop 1001 (inference_latencies_ms M) @ [ms]
        \<and> length (inference_latencies_ms (record_latency_ms M ms)) = 1000)
   \<and> (length (inference_latencies_ms M') < 2000 \<longrightarrow>
        inference_latencies_ms (record_latency_ms M' ms) = inference_latencies_ms M' @ [ms])
   \<and> (length (emotion_top1_scores M) = 2000 \<longrightarrow> length (emotion_top1_times M) = 2000 \<longrightarrow>
        emotion_top1_scores (record_emotion_top1 M s t) =
          drop 1001 (emotion_top1_scores M) @ [s]
        \<and> emotion_top1_times (record_emotion_top1 M s t) =
          drop 1001 (emotion_top1_times M) @ [t]
        \<and> length (emotion_top1_scores (record_emotion_top1 M s t)) = 1000
        \<and> length (emotion_top1_times (record_emotion_top1 M s t)) = 1000)
   \<and> (length (emotion_top1_scores M') < 2000 \<longrightarrow>
        emotion_top1_scores (record_emotion_top1 M' s t) = emotion_top1_scores M' @ [s]
        \<and> emotion_top1_times (record_emotion_top1 M' s t) = emotion_top1_times M' @ [t])"
proof -
  have "capped (run_records (initial_metrics t0) ops)"
    by (rule capped_run_records [OF capped_initial])
  then have inv: "length (inference_latencies_ms (run_records (initial_metrics t0) ops)) \<le> 2000"
    "length (emotion_top1_scores (run_records (initial_metrics t0) ops)) \<le> 2000"
    "length (emotion_top1_times (run_records (initial_metrics t0) ops)) \<le> 2000"
    by (simp_all add: capped_def)
  show ?thesis
    by (intro conjI impI inv)
       (simp_all add: record_latency_ms_overflow record_latency_ms_below
          record_emotion_top1_overflow record_emotion_top1_below)
qed

theorem buffers_capped_and_compacted_witness:
  "length (inference_latencies_ms
       (run_records (initial_metrics 0) [Latency 12, Top1 0.9 3, Latency 15])) \<le> 2000
   \<and> inference_latencies_ms
       (record_latency_ms
          ((initial_metrics 0)\<lparr>inference_latencies_ms := replicate 2000 7,
                               emotion_top1_scores := replicate 2000 0.5,
                               emotion_top1_times := replicate 2000 1\<rparr>) 9)
       = replicate 999 7 @ [9]
   \<and> inference_latencies_ms (record_latency_ms (initial_metrics 0) 9) = [9]
   \<and> emotion_top1_times
       (record_emotion_top1
          ((initial_metrics 0)\<lparr>inference_latencies_ms := replicate 2000 7,
                               emotion_top1_scores := replicate 2000 0.5,
                               emotion_top1_times := replicate 2000 1\<rparr>) 0.8 2)
       = replicate 999 1 @ [2]
   \<and> emotion_top1_scores (record_emotion_top1 (initial_metrics 0) 0.8 2) = [0.8]"
  using buffers_capped_and_compacted
    [of 0 "[Latency 12, Top1 0.9 3, Latency 15]"
        "(initial_metrics 0)\<lparr>inference_latencies_ms := replicate 2000 7,
                             emotion_top1_scores := replicate 2000 0.5,
                             emotion_top1_times := replicate 2000 1\<rparr>"
        9 "initial_metrics 0" "0.8" 2]
  by (simp add: initial_metrics_def)

text \<open>
  Against C5 as stated: 2001 latencies recorded from the initial state leave 1000 entries,
  the last 1000 recorded, not 1001.
\<close>

theorem compaction_keeps_1000_counterexample:
  "inference_latencies_ms
     (run_records (initial_metrics 0) (map (\<lambda>i. Latency (real i)) [0..<2001]))
     = map real [1001..<2001]
   \<and> length (inference_latencies_ms
        (run_records (initial_metrics 0) (map (\<lambda>i. Latency (real i)) [0..<2001])))
      \<noteq> 1000 + 1"
proof -
  have s: "[0..<2001] = [0..<2000] @ [2000]"
    using upt_Suc_append [of 0 2000] by simp
  have l: "length (inference_latencies_ms
        (run_records (initial_metrics 0) (map (\<lambda>i. Latency (real i)) [0..<2000]))) = 2000"
    by (simp add: fill_latencies)
  have "inference_latencies_ms
          (run_records (initial_metrics 0) (map (\<lambda>i. Latency (real i)) [0..<2001]))
        = drop 1001 (map real [0..<2000]) @ [2000]"
    unfolding s
    by (simp add: run_records_append record_latency_ms_overflow [OF l] fill_latencies
          del: upt_Suc)
  also have "\<dots> = map real [1001..<2001]"
    using upt_Suc_append [of 1001 2000] by (simp add: drop_map del: upt_Suc)
  finally have e: "inference_latencies_ms
          (run_records (initial_metrics 0) (map (\<lambda>i. Latency (real i)) [0..<2001]))
        = map real [1001..<2001]" .
  show ?thesis by (simp add: e)
qed

lemma record_latency_ms_keeps_top1:
  "emotion_top1_scores (record_latency_ms M ms) = emotion_top1_scores M"
  "emotion_top1_times (record_latency_ms M ms) = emotion_top1_times M"
  by (simp_all add: record_latency_ms_def Let_def)

lemma record_emotion_top1_lockstep:
  "length (emotion_top1_scores M) = length (emotion_top1_times M) \<Longrightarrow>
   length (emotion_top1_scores (record_emotion_top1 M s t)) =
     length (emotion_top1_times (record_emotion_top1 M s t))"
  by (simp add: record_emotion_top1_def Let_def)

lemma analyze_lockstep:
  "length (emotion_top1_scores M) = length (emotion_top1_times M) \<Longrightarrow>
   length (emotion_top1_scores (fst (analyze M r))) =
     length (emotion_top1_times (fst (analyze M r)))"
  by (auto simp: analyze_def Let_def record_latency_ms_keeps_top1 record_emotion_top1_lockstep
      split: sum.splits list.splits)

lemma serve_lockstep:
  "length (emotion_top1_scores M) = length (emotion_top1_times M) \<Longrightarrow>
   length (emotion_top1_scores (serve M rs)) = length (emotion_top1_times (serve M rs))"
  by (induction rs arbitrary: M) (simp_all add: analyze_lockstep)

text \<open>
  C9, as the code has it. After any sequence of requests the score buffer and the
  timestamp buffer have the same length. The latency buffer is not tied to them: a request
  whose processing raises, or one that succeeds with no emotion pair, appends a latency and
  leaves both top-1 buffers as they were, and a request with blank text records nothing.
\<close>

theorem top1_buffers_in_lockstep:
  "length (emotion_top1_scores (serve (initial_metrics t0) rs)) =
     length (emotion_top1_times (serve (initial_metrics t0) rs))
   \<and> (strip (req_text r) \<noteq> [] \<longrightarrow> outcome r = Inl e \<or> outcome r = Inr [] \<longrightarrow>
        emotion_top1_scores (fst (analyze M r)) = emotion_top1_scores M
        \<and> emotion_top1_times (fst (analyze M r)) = emotion_top1_times M
        \<and> inference_latencies_ms (fst (analyze M r)) =
            inference_latencies_ms (record_latency_ms M (dt_ms r)))
   \<and> (strip (req_text r') = [] \<longrightarrow> fst (analyze M r') = M)"
proof (intro conjI impI)
  show "length (emotion_top1_scores (serve (initial_metrics t0) rs)) =
     length (emotion_top1_times (serve (initial_metrics t0) rs))"
    by (rule serve_lockstep) (simp add: initial_metrics_def)
next
  assume "strip (req_text r) \<noteq> []" "outcome r = Inl e \<or> outcome r = Inr []"
  then show "emotion_top1_scores (fst (analyze M r)) = emotion_top1_scores M"
    "emotion_top1_times (fst (analyze M r)) = emotion_top1_times M"
    "inference_latencies_ms (fst (analyze M r)) =
            inference_latencies_ms (record_latency_ms M (dt_ms r))"
    by (auto simp: analyze_def Let_def record_latency_ms_keeps_top1)
next
  assume "strip (req_text r') = []"
  then show "fst (analyze M r') = M" by (simp add: analyze_def)
qed

theorem top1_buffers_in_lockstep_witness:
  "length (emotion_top1_scores (serve (initial_metrics 0)
      [\<lparr>req_text = ''hi'', outcome = Inr [(''joy'', 0.9)], dt_ms = 12, clock = 1\<rparr>,
       \<lparr>req_text = ''oh'', outcome = Inl RuntimeError, dt_ms = 7, clock = 2\<rparr>])) =
   length (emotion_top1_times (serve (initial_metrics 0)
      [\<lparr>req_text = ''hi'', outcome = Inr [(''joy'', 0.9)], dt_ms = 12, clock = 1\<rparr>,
       \<lparr>req_text = ''oh'', outcome = Inl RuntimeError, dt_ms = 7, clock = 2\<rparr>]))
   \<and> emotion_top1_scores (fst (analyze (initial_metrics 0)
        \<lparr>req_text = ''oh'', outcome = Inl RuntimeError, dt_ms = 7, clock = 2\<rparr>)) = []
   \<and> inference_latencies_ms (fst (analyze (initial_metrics 0)
        \<lparr>req_text = ''oh'', outcome = Inl RuntimeError, dt_ms = 7, clock = 2\<rparr>)) = [7]
   \<and> fst (analyze (initial_metrics 0)
        \<lparr>req_text = '' '', outcome = Inr [], dt_ms = 7, clock = 2\<rparr>) = initial_metrics 0"
  using top1_buffers_in_lockstep
    [of 0 "[\<lparr>req_text = ''hi'', outcome = Inr [(''joy'', 0.9)], dt_ms = 12, clock = 1\<rparr>,
            \<lparr>req_text = ''oh'', outcome = Inl RuntimeError, dt_ms = 7, clock = 2\<rparr>]"
        "\<lparr>req_text = ''oh'', outcome = Inl RuntimeError, dt_ms = 7, clock = 2\<rparr>"
        RuntimeError "initial_metrics 0"
        "\<lparr>req_text = '' '', outcome = Inr [], dt_ms = 7, clock = 2\<rparr>"]
  by (simp add: strip_def is_space_def initial_metrics_def record_latency_ms_def Let_def)

text \<open>
  Against C9 as stated: after one request whose processing raises, the latency buffer
  holds one entry and the score buffer none.
\<close>

theorem failed_request_diverges_counterexample:
  "length (inference_latencies_ms (serve (initial_metrics 0)
       [\<lparr>req_text = ''hi'', outcome = Inl RuntimeError, dt_ms = 12, clock = 1\<rparr>])) = 1
   \<and> length (emotion_top1_scores (serve (initial_metrics 0)
       [\<lparr>req_text = ''hi'', outcome = Inl RuntimeError, dt_ms = 12, clock = 1\<rparr>])) = 0
   \<and> length (emotion_top1_times (serve (initial_metrics 0)
       [\<lparr>req_text = ''hi'', outcome = Inl RuntimeError, dt_ms = 12, clock = 1\<rparr>])) = 0"
  by (simp add: analyze_def initial_metrics_def record_latency_ms_def strip_def
        is_space_def Let_def)

section \<open>Properties of normalisation and canonicalisation\<close>

lemma sum_list_scaled:
  "sum_list (map (snd \<circ> (\<lambda>(l, s). (l, f s / (t::real)))) ps) =
     sum_list (map (\<lambda>(l, s). f s) ps) / t"
  by (induction ps) (auto simp: add_divide_distrib)

lemma sum_list_constant:
  "sum_list (map snd (map (\<lambda>(lbl, _). (lbl, c :: real)) ps)) = real (length ps) * c"
  by (induction ps) (auto simp: algebra_simps)

lemma normalize_distribution_uniform:
  "sum_list (map (\<lambda>(_, s). max 0 s) pairs) \<le> 0 \<Longrightarrow>
   normalize_distribution pairs = map (\<lambda>(lbl, _). (lbl, 1 / real (length pairs))) pairs"
  by (cases pairs) (simp_all add: normalize_distribution_def Let_def)

lemma normalize_distribution_sum:
  assumes ne: "pairs \<noteq> []"
  shows "sum_list (map snd (normalize_distribution pairs)) = 1"
proof (cases "sum_list (map (\<lambda>(_, s). max 0 s) pairs) \<le> 0")
  case True
  have "real (length pairs) * (1 / real (length pairs)) = 1" using ne by simp
  then show ?thesis by (simp only: normalize_distribution_uniform [OF True] sum_list_constant)
next
  case False
  then show ?thesis by (simp add: normalize_distribution_def Let_def sum_list_scaled)
qed

lemma normalize_scores_positive:
  "0 < sum_list (map (\<lambda>(_, s). max 0 s) (item_pairs items)) \<Longrightarrow>
   normalize_scores items True =
     map (\<lambda>(l, s). (l, max 0 s / sum_list (map (\<lambda>(_, s). max 0 s) (item_pairs items))))
       (item_pairs items)
   \<and> sum_list (map snd (normalize_scores items True)) = 1"
  by (simp add: normalize_scores_def Let_def sum_list_scaled)

lemma normalize_scores_unchanged:
  "sum_list (map (\<lambda>(_, s). max 0 s) (item_pairs items)) \<le> 0 \<Longrightarrow>
   normalize_scores items True = item_pairs items"
  by (simp add: normalize_scores_def Let_def)

text \<open>
  C4, as the code has it. \<^verbatim>\<open>normalize_distribution\<close> returns, for a non-empty list,
  scores that sum to 1, and the uniform \<open>1/n\<close> when the clamped total is at most 0; the
  empty list stays empty. The normalisation that the pipeline runs,
  \<^verbatim>\<open>_normalize_scores\<close>, divides the clamped scores by their total and so sums to 1
  when that total is positive; when it is not, the pairs are returned as they are, with
  no uniform fallback. Neither has an error path.
\<close>

theorem normalization_sums_to_one:
  "(pairs \<noteq> [] \<longrightarrow> sum_list (map snd (normalize_distribution pairs)) = 1)
   \<and> (sum_list (map (\<lambda>(_, s). max 0 s) pairs) \<le> 0 \<longrightarrow>
        normalize_distribution pairs = map (\<lambda>(lbl, _). (lbl, 1 / real (length pairs))) pairs)
   \<and> normalize_distribution [] = []
   \<and> (0 < sum_list (map (\<lambda>(_, s). max 0 s) (item_pairs items)) \<longrightarrow>
        normalize_scores items True =
          map (\<lambda>(l, s). (l, max 0 s / sum_list (map (\<lambda>(_, s). max 0 s) (item_pairs items))))
            (item_pairs items)
        \<and> sum_list (map snd (normalize_scores items True)) = 1)
   \<and> (sum_list (map (\<lambda>(_, s). max 0 s) (item_pairs items')) \<le> 0 \<longrightarrow>
        normalize_scores items' True = item_pairs items')"
proof -
  have e: "normalize_distribution [] = []"
    by (simp add: normalize_distribution_def)
  show ?thesis
    using normalize_distribution_sum [of pairs] normalize_distribution_uniform [of pairs]
      normalize_scores_positive [of items] normalize_scores_unchanged [of items'] e
    by blast
qed

theorem normalization_sums_to_one_witness:
  "normalize_distribution [(''joy'', - 1), (''anger'', 0)] = [(''joy'', 1 / 2), (''anger'', 1 / 2)]
   \<and> sum_list (map snd (normalize_distribution [(''joy'', - 1), (''anger'', 0)])) = 1
   \<and> normalize_scores [(Some ''joy '', Some 3), (Some ''anger'', Some 1), (None, None)] True =
       [(''joy'', 3 / 4), (''anger'', 1 / 4), ('''', 0)]
   \<and> normalize_scores [(Some ''joy'', Some (- 1)), (Some ''anger'', Some 0)] True =
       [(''joy'', - 1), (''anger'', 0)]"
  using normalization_sums_to_one
    [of "[(''joy'', - 1), (''anger'', 0)]"
        "[(Some ''joy '', Some 3), (Some ''anger'', Some 1), (None, None)]"
        "[(Some ''joy'', Some (- 1)), (Some ''anger'', Some 0)]"]
  by (simp add: item_pairs_def strip_def is_space_def)

text \<open>
  Against C4 as stated: on two labels with score 0 the pipeline's normalisation returns
  the zeros, which neither sum to 1 nor are the uniform \<open>1/2\<close>.
\<close>

theorem normalize_scores_zero_counterexample:
  "normalize_scores [(Some ''joy'', Some 0), (Some ''anger'', Some 0)] True =
     [(''joy'', 0), (''anger'', 0)]
   \<and> sum_list (map snd (normalize_scores [(Some ''joy'', Some 0), (Some ''anger'', Some 0)] True))
       \<noteq> 1
   \<and> normalize_scores [(Some ''joy'', Some 0), (Some ''anger'', Some 0)] True \<noteq>
       [(''joy'', 1 / 2), (''anger'', 1 / 2)]"
  by (simp add: normalize_scores_def item_pairs_def strip_def is_space_def)

lemma canonicalize_loop_map:
  "canonicalize_loop st D res = res @ map (\<lambda>(l, s). (canon_of st l, s)) D"
  by (induction D arbitrary: res) auto

lemma ensure_default_mapper_result:
  "ensure_default_mapper E st = Inr st1 \<Longrightarrow>
     \<exists>m. vad_mapper st1 = Some m
       \<and> (vad_mapper st = None \<longrightarrow> st1 = st\<lparr>vad_mapper := Some m\<rparr>)
       \<and> (vad_mapper st \<noteq> None \<longrightarrow> st1 = st)"
  by (auto simp: ensure_default_mapper_def split: if_splits sum.splits)

text \<open>
  C10. \<^verbatim>\<open>canonicalize_distribution\<close> returns a list of the same length, in the same order,
  with every score as it was and every label replaced by its canonical form. With a mapper
  in place the call always returns and changes no module state. Without one the default
  mapper is loaded first: the call raises exactly when that load raises, and otherwise the
  only state written is the mapper. The argument list is a value of the model and the
  source never assigns into it; the result is built in a fresh list.
\<close>

theorem canonicalize_distribution_frame:
  "(vad_mapper st = Some m \<longrightarrow>
      canonicalize_distribution E st D = Inr (st, map (\<lambda>(l, s). (canonical m l, s)) D))
   \<and> (vad_mapper st' = None \<longrightarrow>
        (case ensure_default_mapper E st' of
           Inl e \<Rightarrow> canonicalize_distribution E st' D = Inl e
         | Inr st1 \<Rightarrow>
             \<exists>m1. st1 = st'\<lparr>vad_mapper := Some m1\<rparr> \<and>
               canonicalize_distribution E st' D =
                 Inr (st1, map (\<lambda>(l, s). (canonical m1 l, s)) D)))
   \<and> (\<forall>st1 R. canonicalize_distribution E st D = Inr (st1, R) \<longrightarrow>
        length R = length D \<and> map snd R = map snd D
        \<and> (\<forall>i < length D. R ! i = (canon_of st1 (fst (D ! i)), snd (D ! i))))"
proof -
  have a: "canonicalize_distribution E st D = Inr (st, map (\<lambda>(l, s). (canonical m l, s)) D)"
    if "vad_mapper st = Some m"
    using that by (simp add: canonicalize_distribution_def canonicalize_loop_map canon_of_def)
  have b: "case ensure_default_mapper E st' of
           Inl e \<Rightarrow> canonicalize_distribution E st' D = Inl e
         | Inr st1 \<Rightarrow>
             \<exists>m1. st1 = st'\<lparr>vad_mapper := Some m1\<rparr> \<and>
               canonicalize_distribution E st' D =
                 Inr (st1, map (\<lambda>(l, s). (canonical m1 l, s)) D)"
    if "vad_mapper st' = None"
    using that
    by (auto simp: canonicalize_distribution_def canonicalize_loop_map canon_of_def
        split: sum.splits dest!: ensure_default_mapper_result)
  have c: "length R = length D \<and> map snd R = map snd D
        \<and> (\<forall>i < length D. R ! i = (canon_of st1 (fst (D ! i)), snd (D ! i)))"
    if r: "canonicalize_distribution E st D = Inr (st1, R)" for st1 R
  proof -
    from r have R: "R = map (\<lambda>(l, s). (canon_of st1 l, s)) D"
      by (auto simp: canonicalize_distribution_def canonicalize_loop_map split: sum.splits)
    show ?thesis by (auto simp: R split: prod.splits)
  qed
  show ?thesis using a b c by blast
qed


theorem canonicalize_distribution_frame_witness:
  "canonicalize_distribution bare_env (initial_state\<lparr>vad_mapper := Some small_mapper\<rparr>)
     [(''Joy'', 0.7), (''SAD'', 0.3)] =
     Inr (initial_state\<lparr>vad_mapper := Some small_mapper\<rparr>,
          [(''joy'', 0.7), (''sadness'', 0.3)])
   \<and> canonicalize_distribution bare_env initial_state [(''Joy'', 0.7), (''SAD'', 0.3)] =
     Inr (initial_state
            \<lparr>vad_mapper := Some (VADMapper_init [(''neutral'', (0.5, 0.3, 0.5))] None)\<rparr>,
          [(''joy'', 0.7), (''sad'', 0.3)])"
  using canonicalize_distribution_frame
    [of "initial_state\<lparr>vad_mapper := Some small_mapper\<rparr>" small_mapper bare_env
        "[(''Joy'', 0.7), (''SAD'', 0.3)]" initial_state]
  by (simp add: initial_state_def small_mapper_def bare_env_def ensure_default_mapper_def
        default_path_def VADMapper_init_def canonical_def lower_def lower_char_def)

section \<open>Properties of the emotion selector\<close>

lemma max_from_in: "max_from f b xs \<in> set (b # xs)"
  by (induction xs arbitrary: b) auto

lemma max_from_ge_start: "f b \<le> f (max_from f b xs)"
proof (induction xs arbitrary: b)
  case Nil show ?case by simp
next
  case (Cons x xs)
  show ?case using Cons.IH[of "if f b < f x then x else b"] by (auto split: if_splits)
qed

lemma max_from_ge: "x \<in> set (b # xs) \<Longrightarrow> f x \<le> f (max_from f b xs)"
proof (induction xs arbitrary: b)
  case Nil then show ?case by simp
next
  case (Cons y ys)
  let ?b = "if f b < f y then y else b"
  from Cons.prems consider "x = b" | "x = y" | "x \<in> set ys" by auto
  then show ?case
  proof cases
    case 1
    have "f b \<le> f ?b" by simp
    also have "\<dots> \<le> f (max_from f ?b ys)" by (rule max_from_ge_start)
    finally show ?thesis using 1 by simp
  next
    case 2
    have "f y \<le> f ?b" by simp
    also have "\<dots> \<le> f (max_from f ?b ys)" by (rule max_from_ge_start)
    finally show ?thesis using 2 by simp
  next
    case 3
    then have "x \<in> set (?b # ys)" by simp
    from Cons.IH[OF this] show ?thesis by simp
  qed
qed

lemma py_max_Some:
  assumes ne: "xs \<noteq> []"
  shows "\<exists>best. py_max f xs = Some best \<and> best \<in> set xs \<and> (\<forall>x \<in> set xs. f x \<le> f best)"
proof (cases xs)
  case Nil with ne show ?thesis by simp
next
  case (Cons b rest)
  have "max_from f b rest \<in> set xs" using max_from_in[of f b rest] Cons by simp
  moreover have "\<forall>x \<in> set xs. f x \<le> f (max_from f b rest)"
    using max_from_ge[of _ b rest f] Cons by blast
  ultimately show ?thesis using Cons by (simp add: py_max_def)
qed

lemma sort_desc_sorted: "sorted_wrt (\<lambda>p q. f q \<le> f p) (sort_desc f xs)"
proof -
  have "sorted (map (\<lambda>x. - f x) (sort_key (\<lambda>x. - f x) xs))" by (rule sorted_sort_key)
  then show ?thesis by (simp add: sort_desc_def sorted_map)
qed

lemma sort_desc_mset: "mset (sort_desc f xs) = mset xs"
  by (simp add: sort_desc_def)

lemma sort_desc_stable: "filter (\<lambda>y. f y = k) (sort_desc f xs) = filter (\<lambda>y. f y = k) xs"
  using sort_key_stable[of "\<lambda>x. - f x" "- k" xs] by (simp add: sort_desc_def)

lemma sort_desc_Nil: "sort_desc f xs = [] \<longleftrightarrow> xs = []"
  by (metis sort_desc_def length_sort length_0_conv)

lemma item_pairs_Nil: "item_pairs raw = [] \<longleftrightarrow> raw = []"
  by (simp add: item_pairs_def)

lemma analyze_emotions_multi: "analyze_emotions True thr topk raw =
   (let sel = truncate_topk topk (sort_desc snd (filter (\<lambda>p. thr \<le> snd p) (item_pairs raw)))
    in if sel = [] \<and> raw \<noteq> [] then [the (py_max snd (item_pairs raw))] else sel)"
proof -
  have f: "filter (\<lambda>(l, s). thr \<le> s) (item_pairs raw) = filter (\<lambda>p. thr \<le> snd p) (item_pairs raw)"
    by (rule filter_cong) auto
  show ?thesis
  proof (cases "raw = []")
    case True
    then show ?thesis
      by (simp add: analyze_emotions_def normalize_scores_def Let_def item_pairs_def
          truncate_topk_def sort_desc_def slice_to_def py_max_def split: option.splits)
  next
    case False
    then obtain best where "py_max snd (item_pairs raw) = Some best"
      using py_max_Some[of "item_pairs raw" snd] by (auto simp: item_pairs_Nil)
    then show ?thesis using False
      by (simp add: analyze_emotions_def normalize_scores_def Let_def f split: list.splits)
  qed
qed

lemma analyze_emotions_nonempty: "raw \<noteq> [] \<Longrightarrow> analyze_emotions True thr topk raw \<noteq> []"
  by (simp add: analyze_emotions_multi Let_def)

lemma truncate_topk_off: "truncate_topk None xs = xs" "truncate_topk (Some 0) xs = xs"
  by (simp_all add: truncate_topk_def)

lemma truncate_topk_positive: "0 < k \<Longrightarrow> truncate_topk (Some k) xs = take (nat k) xs"
  by (auto simp: truncate_topk_def slice_to_def)

text \<open>
  C6. In multi-label mode a non-empty classifier output never yields an empty list. When
  some entry reaches the threshold, the result is the list of the entries with score at
  least the threshold, sorted by descending score (a stable sort of exactly those
  entries), cut to its first \<open>k\<close> entries when a cap \<open>k > 0\<close> is set and left whole when
  the cap is unset or 0. When no entry reaches the threshold, the result is one entry of
  the input whose score no other entry exceeds.
\<close>

theorem multi_label_selection:
  "(raw \<noteq> [] \<longrightarrow> analyze_emotions True thr topk raw \<noteq> [])
   \<and> (filter (\<lambda>p. thr \<le> snd p) (item_pairs raw) \<noteq> [] \<longrightarrow>
        analyze_emotions True thr None raw =
          sort_desc snd (filter (\<lambda>p. thr \<le> snd p) (item_pairs raw))
        \<and> analyze_emotions True thr (Some 0) raw =
          sort_desc snd (filter (\<lambda>p. thr \<le> snd p) (item_pairs raw))
        \<and> (0 < k \<longrightarrow>
             analyze_emotions True thr (Some k) raw =
               take (nat k) (sort_desc snd (filter (\<lambda>p. thr \<le> snd p) (item_pairs raw)))))
   \<and> (filter (\<lambda>p. thr' \<le> snd p) (item_pairs raw') = [] \<longrightarrow> raw' \<noteq> [] \<longrightarrow>
        (\<exists>best. analyze_emotions True thr' topk' raw' = [best]
           \<and> best \<in> set (item_pairs raw')
           \<and> (\<forall>p \<in> set (item_pairs raw'). snd p \<le> snd best)))
   \<and> mset (sort_desc snd xs) = mset xs
   \<and> sorted_wrt (\<lambda>p q. snd q \<le> snd p) (sort_desc snd xs)
   \<and> (\<forall>v. filter (\<lambda>p. snd p = v) (sort_desc snd xs) = filter (\<lambda>p. snd p = v) xs)"
proof -
  let ?sel = "filter (\<lambda>p. thr \<le> snd p) (item_pairs raw)"
  have a: "analyze_emotions True thr topk raw \<noteq> []" if "raw \<noteq> []"
    using that by (rule analyze_emotions_nonempty)
  have b: "analyze_emotions True thr None raw = sort_desc snd ?sel"
    "analyze_emotions True thr (Some 0) raw = sort_desc snd ?sel"
    if "?sel \<noteq> []"
    using that by (simp_all add: analyze_emotions_multi truncate_topk_off sort_desc_Nil)
  have c: "analyze_emotions True thr (Some k) raw = take (nat k) (sort_desc snd ?sel)"
    if "?sel \<noteq> []" "0 < k"
    using that
    by (simp add: analyze_emotions_multi truncate_topk_positive sort_desc_Nil)
  have d: "\<exists>best. analyze_emotions True thr' topk' raw' = [best]
           \<and> best \<in> set (item_pairs raw')
           \<and> (\<forall>p \<in> set (item_pairs raw'). snd p \<le> snd best)"
    if e: "filter (\<lambda>p. thr' \<le> snd p) (item_pairs raw') = []" and ne: "raw' \<noteq> []"
  proof -
    from ne obtain best where best: "py_max snd (item_pairs raw') = Some best"
      "best \<in> set (item_pairs raw')" "\<forall>p \<in> set (item_pairs raw'). snd p \<le> snd best"
      using py_max_Some [of "item_pairs raw'" snd] by (auto simp: item_pairs_Nil)
    have "truncate_topk topk' (sort_desc snd []) = ([] :: pairs)"
      by (simp add: truncate_topk_def sort_desc_def slice_to_def split: option.splits)
    then have "analyze_emotions True thr' topk' raw' = [best]"
      using ne best(1) by (simp add: analyze_emotions_multi e)
    with best show ?thesis by blast
  qed
  show ?thesis
    using a b c d sort_desc_mset [of snd xs] sort_desc_sorted [of snd xs]
      sort_desc_stable [of snd _ xs]
    by blast
qed

theorem multi_label_selection_witness:
  "analyze_emotions True 0.5 None
     [(Some ''joy'', Some 0.6), (Some ''anger'', Some 0.2), (Some '' fear'', Some 0.7)] =
     [(''fear'', 0.7), (''joy'', 0.6)]
   \<and> analyze_emotions True 0.5 (Some 1)
     [(Some ''joy'', Some 0.6), (Some ''anger'', Some 0.2), (Some '' fear'', Some 0.7)] =
     [(''fear'', 0.7)]
   \<and> (\<exists>best. analyze_emotions True 0.9 (Some 2)
        [(Some ''joy'', Some 0.6), (Some ''anger'', Some 0.2)] = [best]
        \<and> snd best = 0.6)"
  using multi_label_selection
    [of "[(Some ''joy'', Some 0.6), (Some ''anger'', Some 0.2), (Some '' fear'', Some 0.7)]"
        "0.5" None 1 "0.9" "[(Some ''joy'', Some 0.6), (Some ''anger'', Some 0.2)]"
        "Some 2" "[]"]
  by (auto simp: item_pairs_def strip_def is_space_def sort_desc_def)

section \<open>Properties of the stress scorer\<close>

lemma neg_sum_loop_mass: "neg_sum_loop st D acc = acc + neg_mass st D"
proof (induction D arbitrary: acc)
  case Nil
  show ?case by (simp add: neg_mass_def)
next
  case (Cons p D)
  obtain l s where p: "p = (l, s)" by (cases p)
  have step: "neg_mass st ((l, s) # D) =
      (if (case negative_labels st of Some N \<Rightarrow> canon_of st l \<in> N | None \<Rightarrow> False)
       then s else 0) + neg_mass st D"
    by (simp add: neg_mass_def)
  show ?case
    by (auto simp: p step Cons.IH Let_def split: option.splits)
qed

lemma stress_level_bands:
  "(stress_level s = ''low'' \<longleftrightarrow> s < 0.33)
   \<and> (stress_level s = ''medium'' \<longleftrightarrow> 0.33 \<le> s \<and> s < 0.66)
   \<and> (stress_level s = ''high'' \<longleftrightarrow> 0.66 \<le> s)"
  by (auto simp: stress_level_def)

lemma derive_stress_initialised:
  "negative_labels st = Some N \<Longrightarrow>
   derive_stress E st V A D =
     Inr (st, stress_score V A (neg_mass st D), stress_level (stress_score V A (neg_mass st D)))"
  by (simp add: derive_stress_def Let_def neg_sum_loop_mass stress_score_def)

lemma derive_stress_lazy:
  "negative_labels st = None \<Longrightarrow>
   derive_stress E st V A D =
    (case init_negative_labels E st (PROJECT_ROOT E @ ''/models/emotion'') None of
       Inl e \<Rightarrow> Inl e
     | Inr st1 \<Rightarrow>
         Inr (st1, stress_score V A (neg_mass st1 D),
              stress_level (stress_score V A (neg_mass st1 D))))"
  by (simp add: derive_stress_def Let_def neg_sum_loop_mass stress_score_def split: sum.splits)

lemma derive_negative_empty: "derive_negative m thr {} = {}"
  by (simp add: derive_negative_def)

lemma derive_negative_insert:
  "derive_negative m thr (insert x A) =
     (if fst (map_label m x) < thr then insert (canonical m x) (derive_negative m thr A)
      else derive_negative m thr A)"
  by (auto simp: derive_negative_def)

lemma neutral_only_mapper:
  "VADMapper_init [(''neutral'', (1 / 2, 3 / 10, 1 / 2))] None =
     \<lparr>mapping = [''neutral'' \<mapsto> (1 / 2, 3 / 10, 1 / 2)], aliases = Map.empty\<rparr>"
  by (simp add: VADMapper_init_def lower_def lower_char_def)

lemma init_negative_labels_bare:
  "init_negative_labels bare_env initial_state ''/srv/models/emotion'' None =
   Inr (initial_state
          \<lparr>vad_mapper := Some (VADMapper_init [(''neutral'', (0.5, 0.3, 0.5))] None),
           negative_labels := Some {}, negative_labels_source := Some ''derived'',
           negative_threshold := Some 0.4\<rparr>)"
  by (simp add: init_negative_labels_def bare_env_def initial_state_def
        ensure_default_mapper_def default_path_def neutral_only_mapper derive_negative_empty
        derive_negative_insert map_label_def canonical_def lower_def lower_char_def Let_def)

text \<open>
  C2. With the negative-label set in place, \<^verbatim>\<open>derive_stress\<close> returns the score
  \<open>0.6 \<times> (1 - V) + 0.4 \<times> A + 0.15 \<times> neg_mass\<close> clamped to \<open>[0, 1]\<close>, where \<open>neg_mass\<close>
  sums the scores of the entries whose canonical label is in the set, and leaves the state
  alone. Without the set it first runs \<^verbatim>\<open>init_negative_labels\<close> with no label hints and
  scores against the set that leaves; it raises only if that initialisation raises. The
  level is low exactly below 0.33, medium exactly from 0.33 and below 0.66, high exactly
  from 0.66.
\<close>

theorem derive_stress_formula:
  "(negative_labels st = Some N \<longrightarrow>
      derive_stress E st V A D =
        Inr (st, stress_score V A (neg_mass st D),
             stress_level (stress_score V A (neg_mass st D))))
   \<and> (negative_labels st' = None \<longrightarrow>
        derive_stress E st' V A D =
          (case init_negative_labels E st' (PROJECT_ROOT E @ ''/models/emotion'') None of
             Inl e \<Rightarrow> Inl e
           | Inr st1 \<Rightarrow>
               Inr (st1, stress_score V A (neg_mass st1 D),
                    stress_level (stress_score V A (neg_mass st1 D)))))
   \<and> 0 \<le> stress_score V A x \<and> stress_score V A x \<le> 1
   \<and> (stress_level s = ''low'' \<longleftrightarrow> s < 0.33)
   \<and> (stress_level s = ''medium'' \<longleftrightarrow> 0.33 \<le> s \<and> s < 0.66)
   \<and> (stress_level s = ''high'' \<longleftrightarrow> 0.66 \<le> s)"
proof -
  have "0 \<le> stress_score V A x \<and> stress_score V A x \<le> 1"
    by (simp add: stress_score_def)
  then show ?thesis
    using derive_stress_initialised [of st N E V A D] derive_stress_lazy [of st' E V A D]
      stress_level_bands [of s]
    by blast
qed

theorem derive_stress_formula_witness:
  "derive_stress bare_env
     (initial_state\<lparr>vad_mapper := Some small_mapper, negative_labels := Some {''sadness''}\<rparr>)
     0.5 0.5 [(''Sad'', 0.4), (''joy'', 0.6)] =
     Inr (initial_state\<lparr>vad_mapper := Some small_mapper,
                         negative_labels := Some {''sadness''}\<rparr>, 0.56, ''medium'')
   \<and> derive_stress bare_env initial_state 1 0.825 [(''joy'', 1)] =
     Inr (initial_state
            \<lparr>vad_mapper := Some (VADMapper_init [(''neutral'', (0.5, 0.3, 0.5))] None),
             negative_labels := Some {}, negative_labels_source := Some ''derived'',
             negative_threshold := Some 0.4\<rparr>, 0.33, ''medium'')
   \<and> stress_level 0.32999 = ''low'' \<and> stress_level 0.65999 = ''medium''
   \<and> stress_level 0.66 = ''high''"
proof -
  have i: "init_negative_labels bare_env initial_state (PROJECT_ROOT bare_env @ ''/models/emotion'')
             None =
           Inr (initial_state
                  \<lparr>vad_mapper := Some (VADMapper_init [(''neutral'', (0.5, 0.3, 0.5))] None),
                   negative_labels := Some {}, negative_labels_source := Some ''derived'',
                   negative_threshold := Some 0.4\<rparr>)"
    using init_negative_labels_bare by (simp add: bare_env_def)
  have a: "derive_stress bare_env
     (initial_state\<lparr>vad_mapper := Some small_mapper, negative_labels := Some {''sadness''}\<rparr>)
     0.5 0.5 [(''Sad'', 0.4), (''joy'', 0.6)] =
     Inr (initial_state\<lparr>vad_mapper := Some small_mapper,
                         negative_labels := Some {''sadness''}\<rparr>, 0.56, ''medium'')"
    using derive_stress_formula
      [of "initial_state\<lparr>vad_mapper := Some small_mapper,
                          negative_labels := Some {''sadness''}\<rparr>"
          "{''sadness''}" bare_env "0.5" "0.5" "[(''Sad'', 0.4), (''joy'', 0.6)]"]
    by (simp add: neg_mass_def stress_score_def stress_level_def canon_of_def
          small_mapper_def canonical_def lower_def lower_char_def initial_state_def)
  have n: "negative_labels initial_state = None"
    by (simp add: initial_state_def)
  have "derive_stress bare_env initial_state 1 0.825 [(''joy'', 1)] =
     (case init_negative_labels bare_env initial_state
             (PROJECT_ROOT bare_env @ ''/models/emotion'') None of
        Inl e \<Rightarrow> Inl e
      | Inr st1 \<Rightarrow>
          Inr (st1, stress_score 1 0.825 (neg_mass st1 [(''joy'', 1)]),
               stress_level (stress_score 1 0.825 (neg_mass st1 [(''joy'', 1)]))))"
    using derive_stress_formula
      [where st' = initial_state and E = bare_env and V = 1 and A = "0.825"
         and D = "[(''joy'', 1)]"] n
    by blast
  then have b: "derive_stress bare_env initial_state 1 0.825 [(''joy'', 1)] =
     Inr (initial_state
            \<lparr>vad_mapper := Some (VADMapper_init [(''neutral'', (0.5, 0.3, 0.5))] None),
             negative_labels := Some {}, negative_labels_source := Some ''derived'',
             negative_threshold := Some 0.4\<rparr>, 0.33, ''medium'')"
    by (simp add: i neg_mass_def stress_score_def stress_level_def)
  show ?thesis
    using a b by (simp add: stress_level_def)
qed

section \<open>Properties of the negative-label set\<close>

lemma document_labels_shapes:
  "document_labels E (JList xs) = {lower (py_str E x) | x. x \<in> set xs}"
  "map_of kvs ''labels'' = Some (JList xs) \<Longrightarrow>
     document_labels E (JObj kvs) = {lower (py_str E x) | x. x \<in> set xs}"
  "(\<forall>ys. map_of kvs ''labels'' \<noteq> Some (JList ys)) \<Longrightarrow>
     document_labels E (JObj kvs) = {lower k | k v. (k, v) \<in> set kvs \<and> truthy v}"
  "\<not> accepted_shape data \<Longrightarrow> document_labels E data = {}"
  by (auto simp: document_labels_def split: option.splits json.splits)

lemma init_negative_labels_file:
  "get_negative_config_paths E d = Some path \<Longrightarrow> fs E path = Some (Parsed data) \<Longrightarrow>
   init_negative_labels E st d ls =
     Inr (st\<lparr>negative_labels := Some (document_labels E data), negative_path := Some path,
             negative_labels_count := card (document_labels E data),
             negative_labels_source := Some ''file''\<rparr>)"
  by (simp add: init_negative_labels_def load_negative_from_file_def Let_def)

lemma ensure_default_mapper_present:
  "vad_mapper st \<noteq> None \<Longrightarrow> ensure_default_mapper E st = Inr st"
  by (simp add: ensure_default_mapper_def)

lemma init_negative_labels_derived:
  assumes "no_negative_file E d"
  shows "case ensure_default_mapper E st of
       Inl e \<Rightarrow> init_negative_labels E st d ls = Inl e
     | Inr st1 \<Rightarrow>
         \<exists>m. vad_mapper st1 = Some m \<and>
           init_negative_labels E st d ls =
             Inr (st1\<lparr>negative_labels :=
                        Some (derive_negative m (get_negative_valence_threshold E)
                               (case ls of
                                  Some (l # rest) \<Rightarrow> set (l # rest)
                                | _ \<Rightarrow> dom (mapping m))),
                      negative_path := None,
                      negative_labels_count :=
                        card (derive_negative m (get_negative_valence_threshold E)
                               (case ls of
                                  Some (l # rest) \<Rightarrow> set (l # rest)
                                | _ \<Rightarrow> dom (mapping m))),
                      negative_labels_source := Some ''derived'',
                      negative_threshold := Some (get_negative_valence_threshold E)\<rparr>)"
proof -
  have l: "(case get_negative_config_paths E d of
              None \<Rightarrow> None
            | Some p \<Rightarrow> if fs E p \<noteq> None then load_negative_from_file E p else None) = None"
    using assms
    by (auto simp: no_negative_file_def load_negative_from_file_def split: option.splits)
  have e: "(if vad_mapper st = None then ensure_default_mapper E st else Inr st) =
             ensure_default_mapper E st"
    by (simp add: ensure_default_mapper_present)
  show ?thesis
    unfolding init_negative_labels_def Let_def l e
    by (auto split: sum.splits option.splits list.splits dest!: ensure_default_mapper_result)
qed

lemma derive_negative_member:
  "x \<in> derive_negative m thr C \<longleftrightarrow>
     (\<exists>l \<in> C. x = canonical m l \<and> fst (map_label m l) < thr)"
  by (auto simp: derive_negative_def)

text \<open>
  C8, as the code has it. When the configured negative-label file exists and parses, the
  call records the document's labels with source \<open>file\<close> and stops, whatever the
  document's shape: a list gives its elements, an object with a \<open>labels\<close> list gives
  that list's elements, any other object gives its keys with a truthy value, all
  lower-cased, and a document of any other shape gives the empty set. When there is no
  path, no file or no parse, the mapper is taken (the default one is loaded when none is
  set, and the call raises if that load raises) and the set is derived: the canonical
  forms of the candidates, the given labels when the list is not empty and else the keys
  of the table, whose mapped valence is strictly below the threshold; the source is
  \<open>derived\<close> and the threshold is recorded.
\<close>

theorem init_negative_labels_sources:
  "(get_negative_config_paths E d = Some path \<longrightarrow> fs E path = Some (Parsed data) \<longrightarrow>
      init_negative_labels E st d ls =
        Inr (st\<lparr>negative_labels := Some (document_labels E data), negative_path := Some path,
                negative_labels_count := card (document_labels E data),
                negative_labels_source := Some ''file''\<rparr>))
   \<and> document_labels E (JList xs) = {lower (py_str E x) | x. x \<in> set xs}
   \<and> (map_of kvs ''labels'' = Some (JList xs) \<longrightarrow>
        document_labels E (JObj kvs) = {lower (py_str E x) | x. x \<in> set xs})
   \<and> ((\<forall>ys. map_of kvs' ''labels'' \<noteq> Some (JList ys)) \<longrightarrow>
        document_labels E (JObj kvs') = {lower k | k v. (k, v) \<in> set kvs' \<and> truthy v})
   \<and> (\<not> accepted_shape data' \<longrightarrow> document_labels E data' = {})
   \<and> (no_negative_file E' d' \<longrightarrow>
        (case ensure_default_mapper E' st' of
           Inl e \<Rightarrow> init_negative_labels E' st' d' ls' = Inl e
         | Inr st1 \<Rightarrow>
             \<exists>m. vad_mapper st1 = Some m \<and>
               init_negative_labels E' st' d' ls' =
                 Inr (st1\<lparr>negative_labels :=
                            Some (derive_negative m (get_negative_valence_threshold E')
                                   (case ls' of
                                      Some (l # rest) \<Rightarrow> set (l # rest)
                                    | _ \<Rightarrow> dom (mapping m))),
                          negative_path := None,
                          negative_labels_count :=
                            card (derive_negative m (get_negative_valence_threshold E')
                                   (case ls' of
                                      Some (l # rest) \<Rightarrow> set (l # rest)
                                    | _ \<Rightarrow> dom (mapping m))),
                          negative_labels_source := Some ''derived'',
                          negative_threshold := Some (get_negative_valence_threshold E')\<rparr>)))
   \<and> (x \<in> derive_negative m0 thr C \<longleftrightarrow>
        (\<exists>l \<in> C. x = canonical m0 l \<and> fst (map_label m0 l) < thr))"
  using init_negative_labels_file [of E d path data st ls]
    document_labels_shapes(1) [of E xs] document_labels_shapes(2) [of kvs xs E]
    document_labels_shapes(3) [of kvs' E] document_labels_shapes(4) [of data' E]
    init_negative_labels_derived [of E' d' st' ls'] derive_negative_member [of x m0 thr C]
  by blast

lemma small_mapper_dom: "dom (mapping small_mapper) = {''joy'', ''sadness''}"
  by (auto simp: small_mapper_def)

theorem init_negative_labels_sources_witness:
  "init_negative_labels (file_env (JList [JStr ''Anger'', JStr ''FEAR''])) initial_state
     ''/srv/models/emotion'' None =
     Inr (initial_state\<lparr>negative_labels := Some {''anger'', ''fear''},
            negative_path := Some ''/srv/negative_emotions.json'',
            negative_labels_count := 2, negative_labels_source := Some ''file''\<rparr>)
   \<and> init_negative_labels (file_env (JObj [(''Anger'', JBool True), (''joy'', JBool False)]))
       initial_state ''/srv/models/emotion'' None =
     Inr (initial_state\<lparr>negative_labels := Some {''anger''},
            negative_path := Some ''/srv/negative_emotions.json'',
            negative_labels_count := 1, negative_labels_source := Some ''file''\<rparr>)
   \<and> init_negative_labels bare_env (initial_state\<lparr>vad_mapper := Some small_mapper\<rparr>)
       ''/srv/models/emotion'' (Some [''Joy'', ''Sad'']) =
     Inr (initial_state\<lparr>vad_mapper := Some small_mapper, negative_labels := Some {''sadness''},
            negative_labels_count := 1, negative_labels_source := Some ''derived'',
            negative_threshold := Some 0.4\<rparr>)
   \<and> init_negative_labels bare_env (initial_state\<lparr>vad_mapper := Some small_mapper\<rparr>)
       ''/srv/models/emotion'' None =
     Inr (initial_state\<lparr>vad_mapper := Some small_mapper, negative_labels := Some {''sadness''},
            negative_labels_count := 1, negative_labels_source := Some ''derived'',
            negative_threshold := Some 0.4\<rparr>)"
proof -
  let ?d = "''/srv/models/emotion''"
  let ?p = "''/srv/negative_emotions.json''"
  let ?st = "initial_state\<lparr>vad_mapper := Some small_mapper\<rparr>"
  have f1: "get_negative_config_paths (file_env doc) ?d = Some ?p"
    "fs (file_env doc) ?p = Some (Parsed doc)" for doc
    by (simp_all add: file_env_def)
  let ?l = "JList [JStr ''Anger'', JStr ''FEAR'']"
  let ?o = "JObj [(''Anger'', JBool True), (''joy'', JBool False)]"
  have dl: "document_labels E ?l = {''anger'', ''fear''}"
    "document_labels E ?o = {''anger''}" for E
    by (simp_all add: document_labels_def py_str_def lower_def lower_char_def)
  have "init_negative_labels (file_env ?l) initial_state ?d None =
     Inr (initial_state\<lparr>negative_labels := Some (document_labels (file_env ?l) ?l),
            negative_path := Some ?p,
            negative_labels_count := card (document_labels (file_env ?l) ?l),
            negative_labels_source := Some ''file''\<rparr>)"
    using init_negative_labels_sources
      [where E = "file_env ?l" and d = ?d and path = ?p and data = ?l and st = initial_state
         and ls = None] f1 [of ?l]
    by blast
  then have a: "init_negative_labels (file_env ?l) initial_state ?d None =
     Inr (initial_state\<lparr>negative_labels := Some {''anger'', ''fear''},
            negative_path := Some ?p,
            negative_labels_count := 2, negative_labels_source := Some ''file''\<rparr>)"
    by (simp add: dl)
  have "init_negative_labels (file_env ?o) initial_state ?d None =
     Inr (initial_state\<lparr>negative_labels := Some (document_labels (file_env ?o) ?o),
            negative_path := Some ?p,
            negative_labels_count := card (document_labels (file_env ?o) ?o),
            negative_labels_source := Some ''file''\<rparr>)"
    using init_negative_labels_sources
      [where E = "file_env ?o" and d = ?d and path = ?p and data = ?o and st = initial_state
         and ls = None] f1 [of ?o]
    by blast
  then have b: "init_negative_labels (file_env ?o) initial_state ?d None =
     Inr (initial_state\<lparr>negative_labels := Some {''anger''},
            negative_path := Some ?p,
            negative_labels_count := 1, negative_labels_source := Some ''file''\<rparr>)"
    by (simp add: dl)
  have nf: "no_negative_file bare_env ?d"
    by (simp add: no_negative_file_def bare_env_def)
  have en: "ensure_default_mapper bare_env ?st = Inr ?st"
    by (simp add: ensure_default_mapper_def)
  have thr: "get_negative_valence_threshold bare_env = 0.4"
    by (simp add: bare_env_def)
  have dn: "derive_negative small_mapper (2 / 5) {''Joy'', ''Sad''} = {''sadness''}"
    "derive_negative small_mapper (2 / 5) {''joy'', ''sadness''} = {''sadness''}"
    by (simp_all add: derive_negative_insert derive_negative_empty map_label_def canonical_def
        small_mapper_def lower_def lower_char_def)
  have "case ensure_default_mapper bare_env ?st of
           Inl e \<Rightarrow> init_negative_labels bare_env ?st ?d (Some [''Joy'', ''Sad'']) = Inl e
         | Inr st1 \<Rightarrow>
             \<exists>m. vad_mapper st1 = Some m \<and>
               init_negative_labels bare_env ?st ?d (Some [''Joy'', ''Sad'']) =
                 Inr (st1\<lparr>negative_labels :=
                            Some (derive_negative m (get_negative_valence_threshold bare_env)
                                   (case Some [''Joy'', ''Sad''] of
                                      Some (l # rest) \<Rightarrow> set (l # rest)
                                    | _ \<Rightarrow> dom (mapping m))),
                          negative_path := None,
                          negative_labels_count :=
                            card (derive_negative m (get_negative_valence_threshold bare_env)
                                   (case Some [''Joy'', ''Sad''] of
                                      Some (l # rest) \<Rightarrow> set (l # rest)
                                    | _ \<Rightarrow> dom (mapping m))),
                          negative_labels_source := Some ''derived'',
                          negative_threshold := Some (get_negative_valence_threshold bare_env)\<rparr>)"
    using init_negative_labels_sources
      [where E' = bare_env and d' = ?d and st' = ?st and ls' = "Some [''Joy'', ''Sad'']"] nf
    by blast
  then have "\<exists>m. vad_mapper ?st = Some m \<and>
      init_negative_labels bare_env ?st ?d (Some [''Joy'', ''Sad'']) =
        Inr (?st\<lparr>negative_labels :=
                   Some (derive_negative m (get_negative_valence_threshold bare_env)
                          (case Some [''Joy'', ''Sad''] of
                             Some (l # rest) \<Rightarrow> set (l # rest)
                           | _ \<Rightarrow> dom (mapping m))),
                 negative_path := None,
                 negative_labels_count :=
                   card (derive_negative m (get_negative_valence_threshold bare_env)
                          (case Some [''Joy'', ''Sad''] of
                             Some (l # rest) \<Rightarrow> set (l # rest)
                           | _ \<Rightarrow> dom (mapping m))),
                 negative_labels_source := Some ''derived'',
                 negative_threshold := Some (get_negative_valence_threshold bare_env)\<rparr>)"
    by (simp only: en sum.case)
  then have c: "init_negative_labels bare_env ?st ?d (Some [''Joy'', ''Sad'']) =
     Inr (initial_state\<lparr>vad_mapper := Some small_mapper, negative_labels := Some {''sadness''},
            negative_labels_count := 1, negative_labels_source := Some ''derived'',
            negative_threshold := Some 0.4\<rparr>)"
    by (auto simp: thr dn small_mapper_dom initial_state_def)
  have "case ensure_default_mapper bare_env ?st of
           Inl e \<Rightarrow> init_negative_labels bare_env ?st ?d (None) = Inl e
         | Inr st1 \<Rightarrow>
             \<exists>m. vad_mapper st1 = Some m \<and>
               init_negative_labels bare_env ?st ?d (None) =
                 Inr (st1\<lparr>negative_labels :=
                            Some (derive_negative m (get_negative_valence_threshold bare_env)
                                   (case None of
                                      Some (l # rest) \<Rightarrow> set (l # rest)
                                    | _ \<Rightarrow> dom (mapping m))),
                          negative_path := None,
                          negative_labels_count :=
                            card (derive_negative m (get_negative_valence_threshold bare_env)
                                   (case None of
                                      Some (l # rest) \<Rightarrow> set (l # rest)
                                    | _ \<Rightarrow> dom (mapping m))),
                          negative_labels_source := Some ''derived'',
                          negative_threshold := Some (get_negative_valence_threshold bare_env)\<rparr>)"
    using init_negative_labels_sources
      [where E' = bare_env and d' = ?d and st' = ?st and ls' = "None"] nf
    by blast
  then have "\<exists>m. vad_mapper ?st = Some m \<and>
      init_negative_labels bare_env ?st ?d (None) =
        Inr (?st\<lparr>negative_labels :=
                   Some (derive_negative m (get_negative_valence_threshold bare_env)
                          (case None of
                             Some (l # rest) \<Rightarrow> set (l # rest)
                           | _ \<Rightarrow> dom (mapping m))),
                 negative_path := None,
                 negative_labels_count :=
                   card (derive_negative m (get_negative_valence_threshold bare_env)
                          (case None of
                             Some (l # rest) \<Rightarrow> set (l # rest)
                           | _ \<Rightarrow> dom (mapping m))),
                 negative_labels_source := Some ''derived'',
                 negative_threshold := Some (get_negative_valence_threshold bare_env)\<rparr>)"
    by (simp only: en sum.case)
  then have d: "init_negative_labels bare_env ?st ?d (None) =
     Inr (initial_state\<lparr>vad_mapper := Some small_mapper, negative_labels := Some {''sadness''},
            negative_labels_count := 1, negative_labels_source := Some ''derived'',
            negative_threshold := Some 0.4\<rparr>)"
    by (auto simp: thr dn small_mapper_dom initial_state_def)
  show ?thesis using a b c d by simp
qed

text \<open>
  Against C8 as stated: a file holding the JSON number 42, which is none of the three
  shapes, is accepted all the same; the set is empty, the source is \<open>file\<close>, and nothing
  is derived.
\<close>

theorem scalar_document_counterexample:
  "\<not> accepted_shape (JNum 42)
   \<and> init_negative_labels (file_env (JNum 42)) initial_state ''/srv/models/emotion'' None =
     Inr (initial_state\<lparr>negative_labels := Some {},
            negative_path := Some ''/srv/negative_emotions.json'',
            negative_labels_source := Some ''file''\<rparr>)"
  by (simp add: init_negative_labels_def load_negative_from_file_def document_labels_def
        file_env_def bare_env_def initial_state_def Let_def)

section \<open>Properties of the sentiment normaliser\<close>



lemma dict_set_sum:
  "sum_list (map snd (dict_set d k v)) = sum_list (map snd d) - dict_get d k 0 + (v::real)"
  by (induction d) (auto simp: dict_get_def)

































end
